theory Spec2Isabelle
  imports Main "HOL-Library.Char_ord" "HOL-Library.List_Lexorder" "HOL-Library.Product_Lexorder"
begin

section \<open>Strings and paths\<close>

text \<open>
  Python strings are modelled as \<open>string\<close> (lists of characters, ASCII).
  \<open>str_nat\<close> and \<open>str_int\<close> are the decimal rendering that an f-string applies
  to an integer.
\<close>

definition digit_char :: "nat \<Rightarrow> char" where
  "digit_char d = ''0123456789'' ! d"

fun str_nat :: "nat \<Rightarrow> string" where
  "str_nat n = (if n < 10 then [digit_char n] else str_nat (n div 10) @ [digit_char (n mod 10)])"

declare str_nat.simps [simp del]

definition str_int :: "int \<Rightarrow> string" where
  "str_int i = (if i < 0 then CHR ''-'' # str_nat (nat (- i)) else str_nat (nat i))"

text \<open>\<open>str.strip()\<close>: drops leading and trailing ASCII whitespace.\<close>

definition is_space :: "char \<Rightarrow> bool" where
  "is_space c = (c \<in> set [CHR 0x09, CHR 0x0A, CHR 0x0B, CHR 0x0C, CHR 0x0D,
                          CHR 0x1C, CHR 0x1D, CHR 0x1E, CHR 0x1F, CHR '' ''])"

definition strip :: "string \<Rightarrow> string" where
  "strip s = rev (dropWhile is_space (rev (dropWhile is_space s)))"

text \<open>\<open>str.lower()\<close> on ASCII letters, \<open>str.endswith\<close> and \<open>str.startswith\<close>.\<close>

definition lower_char :: "char \<Rightarrow> char" where
  "lower_char c =
     (case map_of (zip ''ABCDEFGHIJKLMNOPQRSTUVWXYZ'' ''abcdefghijklmnopqrstuvwxyz'') c of
        Some l \<Rightarrow> l
      | None \<Rightarrow> c)"

definition lower :: "string \<Rightarrow> string" where
  "lower s = map lower_char s"

definition endswith :: "string \<Rightarrow> string \<Rightarrow> bool" where
  "endswith s suf = (length suf \<le> length s \<and> drop (length s - length suf) s = suf)"

definition startswith :: "string \<Rightarrow> string \<Rightarrow> bool" where
  "startswith s pre = (take (length pre) s = pre)"

text \<open>
  The functions of \<open>os.path\<close> that the program calls, in their POSIX form
  (\<open>posixpath\<close>): \<open>rfind\<close> is \<open>str.rfind\<close> of one character (the index of its last
  occurrence, or \<open>-1\<close>).
\<close>

definition rfind :: "char \<Rightarrow> string \<Rightarrow> int" where
  "rfind c p = (if c \<in> set p
                then int (length p) - 1 - int (length (takeWhile (\<lambda>x. x \<noteq> c) (rev p)))
                else - 1)"

definition sep :: char where
  "sep = CHR ''/''"

definition rstrip_sep :: "string \<Rightarrow> string" where
  "rstrip_sep s = rev (dropWhile (\<lambda>c. c = sep) (rev s))"

definition basename :: "string \<Rightarrow> string" where
  "basename p = drop (nat (rfind sep p + 1)) p"

definition dirname :: "string \<Rightarrow> string" where
  "dirname p =
     (let head = take (nat (rfind sep p + 1)) p
      in if head \<noteq> [] \<and> head \<noteq> replicate (length head) sep then rstrip_sep head else head)"

definition join :: "string \<Rightarrow> string \<Rightarrow> string" where
  "join a b =
     (if startswith b [sep] then b
      else if a = [] \<or> endswith a [sep] then a @ b
      else a @ [sep] @ b)"

definition splitext :: "string \<Rightarrow> string \<times> string" where
  "splitext p =
     (let sepIndex = rfind sep p;
          dotIndex = rfind (CHR ''.'') p
      in if dotIndex > sepIndex \<and>
            list_ex (\<lambda>c. c \<noteq> CHR ''.'')
              (take (nat (dotIndex - (sepIndex + 1))) (drop (nat (sepIndex + 1)) p))
         then (take (nat dotIndex) p, drop (nat dotIndex) p)
         else (p, []))"

section \<open>Data model\<close>

datatype quality = Extreme | Strong | Balanced | High

datatype engine = Auto | Ghostscript | Basic

record CompressResult =
  ok :: bool
  engine :: engine
  input_path :: string
  output_path :: string
  message :: string

definition mk_result :: "bool \<Rightarrow> engine \<Rightarrow> string \<Rightarrow> string \<Rightarrow> string \<Rightarrow> CompressResult" where
  "mk_result b e i out m =
     \<lparr>ok = b, engine = e, input_path = i, output_path = out, message = m\<rparr>"

section \<open>Quality presets of the Ghostscript backend\<close>

fun map_quality_to_pdfsettings :: "quality \<Rightarrow> string" where
  "map_quality_to_pdfsettings Extreme = ''screen''"
| "map_quality_to_pdfsettings Strong = ''screen''"
| "map_quality_to_pdfsettings Balanced = ''ebook''"
| "map_quality_to_pdfsettings High = ''printer''"

definition ghostscript_extra_args_for_quality :: "quality \<Rightarrow> string list" where
  "ghostscript_extra_args_for_quality q =
     (if q = Extreme then
        [''-dDownsampleColorImages=true'',
         ''-dColorImageDownsampleType=/Average'',
         ''-dColorImageResolution=72'',
         ''-dDownsampleGrayImages=true'',
         ''-dGrayImageDownsampleType=/Average'',
         ''-dGrayImageResolution=72'',
         ''-dDownsampleMonoImages=true'',
         ''-dMonoImageDownsampleType=/Subsample'',
         ''-dMonoImageResolution=150'',
         ''-dAutoFilterColorImages=false'',
         ''-dColorImageFilter=/DCTEncode'',
         ''-dAutoFilterGrayImages=false'',
         ''-dGrayImageFilter=/DCTEncode'',
         ''-dJPEGQ=20'',
         ''-dDetectDuplicateImages=true'',
         ''-dSubsetFonts=true'',
         ''-dCompressFonts=true'']
      else if q = Strong then
        [''-dDownsampleColorImages=true'',
         ''-dColorImageDownsampleType=/Average'',
         ''-dColorImageResolution=96'',
         ''-dDownsampleGrayImages=true'',
         ''-dGrayImageDownsampleType=/Average'',
         ''-dGrayImageResolution=96'',
         ''-dDownsampleMonoImages=true'',
         ''-dMonoImageDownsampleType=/Subsample'',
         ''-dMonoImageResolution=180'',
         ''-dAutoFilterColorImages=false'',
         ''-dColorImageFilter=/DCTEncode'',
         ''-dAutoFilterGrayImages=false'',
         ''-dGrayImageFilter=/DCTEncode'',
         ''-dJPEGQ=35'',
         ''-dDetectDuplicateImages=true'',
         ''-dSubsetFonts=true'',
         ''-dCompressFonts=true'']
      else
        [''-dDetectDuplicateImages=true'',
         ''-dSubsetFonts=true'',
         ''-dCompressFonts=true''])"

text \<open>
  The command line of \<open>compress_with_ghostscript\<close>: the fixed list, with the extra
  arguments spliced in at index 5 (\<open>cmd[5:5] = extra\<close>).
\<close>

definition gs_command :: "string \<Rightarrow> quality \<Rightarrow> string \<Rightarrow> string \<Rightarrow> string list" where
  "gs_command gs_path q tmp_out inp =
     (let pdfsettings = map_quality_to_pdfsettings q;
          cmd = [gs_path,
                 ''-sDEVICE=pdfwrite'',
                 ''-dCompatibilityLevel=1.4'',
                 ''-dPDFSETTINGS=/'' @ pdfsettings,
                 ''-dNOPAUSE'',
                 ''-dQUIET'',
                 ''-dBATCH'',
                 ''-sOutputFile='' @ tmp_out,
                 inp];
          extra = ghostscript_extra_args_for_quality q
      in take 5 cmd @ extra @ drop 5 cmd)"

section \<open>The world outside the program\<close>

text \<open>
  The file system maps a path to what is there: a regular file with its size in bytes,
  or a directory. The trace records, in order, each call that reaches the outside
  (temporary files, processes, removals, moves, the PDF library, the network) and each
  entry into a compression backend.
\<close>

datatype entry = File nat | Dir

datatype exn = Exception string

datatype proc = Completed int string string | Timeout | LaunchError string

datatype gui = GuiImportFailed | GuiRuntimeError | GuiReturned

datatype event =
    Enter engine
  | MkTemp string
  | Spawn "string list"
  | Makedirs string
  | Remove string bool
  | Move string string
  | Import
  | LibOpen string
  | LibSave string string
  | HttpGet string
  | UrlOpen string

record world =
  fs :: "string \<Rightarrow> entry option"
  trace :: "event list"

text \<open>
  What the outside does is a parameter: \<open>env\<close> holds, for each library call whose
  outcome the program cannot determine, the outcome in a given world. A process, a
  library save and a download may leave any file system behind; a removal, a move and
  a directory creation either raise (the text of the error is given) or have their
  documented effect. An exception is a value \<open>Exception m\<close> with the text that
  \<open>str\<close> gives; the expiry of a process's timeout is an outcome of the process.
  Every call to the outside returns: a process that hangs with no timeout set is not
  modelled. What the program prints is not modelled either.
\<close>

record env =
  potential_roots :: "string list"
  which :: "world \<Rightarrow> string \<Rightarrow> string option"
  glob :: "world \<Rightarrow> string \<Rightarrow> string list"
  mkstemp_result :: "world \<Rightarrow> string \<Rightarrow> string \<Rightarrow> exn + string"
  run_result :: "world \<Rightarrow> string list \<Rightarrow> int option \<Rightarrow> proc \<times> (string \<Rightarrow> entry option)"
  makedirs_error :: "world \<Rightarrow> string \<Rightarrow> string option"
  remove_error :: "world \<Rightarrow> string \<Rightarrow> string option"
  move_error :: "world \<Rightarrow> string \<Rightarrow> string \<Rightarrow> string option"
  import_error :: "world \<Rightarrow> string option"
  open_error :: "world \<Rightarrow> string \<Rightarrow> string option"
  save_result :: "world \<Rightarrow> string \<Rightarrow> string \<Rightarrow> string option \<times> (string \<Rightarrow> entry option)"
  arch_64bit :: bool
  release_assets :: "world \<Rightarrow> string \<Rightarrow> exn + (string \<times> string option) list"
  urlopen_error :: "world \<Rightarrow> string \<Rightarrow> string option"
  copy_result :: "world \<Rightarrow> string \<Rightarrow> string \<Rightarrow> string option \<times> nat"
  listdir_result :: "world \<Rightarrow> string \<Rightarrow> exn + string list"
  abspath :: "string \<Rightarrow> string"
  gui_result :: "world \<Rightarrow> gui"

definition str_exn :: "exn \<Rightarrow> string" where
  "str_exn e = (case e of Exception m \<Rightarrow> m)"

definition log :: "event \<Rightarrow> world \<Rightarrow> world" where
  "log e w = w\<lparr>trace := trace w @ [e]\<rparr>"

definition os_path_exists :: "world \<Rightarrow> string \<Rightarrow> bool" where
  "os_path_exists w p = (fs w p \<noteq> None)"

definition os_path_isdir :: "world \<Rightarrow> string \<Rightarrow> bool" where
  "os_path_isdir w p = (fs w p = Some Dir)"

definition os_path_isfile :: "world \<Rightarrow> string \<Rightarrow> bool" where
  "os_path_isfile w p = (case fs w p of Some (File n) \<Rightarrow> True | _ \<Rightarrow> False)"

text \<open>\<open>tempfile.mkstemp\<close>: creates a new, empty file under a name not in use, or raises.\<close>

definition mkstemp :: "env \<Rightarrow> string \<Rightarrow> string \<Rightarrow> world \<Rightarrow> (exn + string) \<times> world" where
  "mkstemp E pre suf w =
     (case mkstemp_result E w pre suf of
        Inl e \<Rightarrow> (Inl e, w)
      | Inr p \<Rightarrow>
          if fs w p \<noteq> None then (Inl (Exception ''FileExistsError''), w)
          else (Inr p, log (MkTemp p) (w\<lparr>fs := (fs w)(p \<mapsto> File 0)\<rparr>)))"

text \<open>\<open>subprocess.run\<close>: the process runs to one of its three outcomes.\<close>

definition subprocess_run :: "env \<Rightarrow> string list \<Rightarrow> int option \<Rightarrow> world \<Rightarrow> proc \<times> world" where
  "subprocess_run E cmd timeout w =
     (let (r, fs') = run_result E w cmd timeout
      in (r, log (Spawn cmd) (w\<lparr>fs := fs'\<rparr>)))"

text \<open>\<open>os.remove\<close>: removes a regular file; raises on anything else.\<close>

definition os_remove :: "env \<Rightarrow> string \<Rightarrow> world \<Rightarrow> (exn + unit) \<times> world" where
  "os_remove E p w =
     (case remove_error E w p of
        Some m \<Rightarrow> (Inl (Exception m), log (Remove p False) w)
      | None \<Rightarrow>
          (case fs w p of
             Some (File n) \<Rightarrow> (Inr (), log (Remove p True) (w\<lparr>fs := (fs w)(p := None)\<rparr>))
           | Some Dir \<Rightarrow> (Inl (Exception ''IsADirectoryError''), log (Remove p False) w)
           | None \<Rightarrow> (Inl (Exception ''FileNotFoundError''), log (Remove p False) w)))"

text \<open>
  \<open>shutil.move\<close>: into a directory when the destination is one, else a rename that
  replaces the destination.
\<close>

definition shutil_move :: "env \<Rightarrow> string \<Rightarrow> string \<Rightarrow> world \<Rightarrow> (exn + unit) \<times> world" where
  "shutil_move E src dst w =
     (case move_error E w src dst of
        Some m \<Rightarrow> (Inl (Exception m), log (Move src dst) w)
      | None \<Rightarrow>
          (case fs w src of
             None \<Rightarrow> (Inl (Exception ''FileNotFoundError''), log (Move src dst) w)
           | Some e \<Rightarrow>
               let real_dst = (if fs w dst = Some Dir then join dst (basename src) else dst)
               in if fs w dst = Some Dir \<and> fs w real_dst \<noteq> None
                  then (Inl (Exception ''Destination path already exists''), log (Move src dst) w)
                  else (Inr (), log (Move src dst)
                          (w\<lparr>fs := ((fs w)(src := None))(real_dst \<mapsto> e)\<rparr>))))"

text \<open>
  \<open>os.makedirs(p, exist_ok=True)\<close>: of the directories it creates, the file system
  of the model records the last one.
\<close>

definition os_makedirs :: "env \<Rightarrow> string \<Rightarrow> world \<Rightarrow> (exn + unit) \<times> world" where
  "os_makedirs E p w =
     (case makedirs_error E w p of
        Some m \<Rightarrow> (Inl (Exception m), log (Makedirs p) w)
      | None \<Rightarrow>
          (case fs w p of
             Some (File n) \<Rightarrow> (Inl (Exception ''FileExistsError''), log (Makedirs p) w)
           | Some Dir \<Rightarrow> (Inr (), log (Makedirs p) w)
           | None \<Rightarrow> (Inr (), log (Makedirs p) (w\<lparr>fs := (fs w)(p \<mapsto> Dir)\<rparr>))))"

text \<open>The PDF library: the import, \<open>pikepdf.open\<close> and \<open>Pdf.save\<close>.\<close>

definition import_pikepdf :: "env \<Rightarrow> world \<Rightarrow> (exn + unit) \<times> world" where
  "import_pikepdf E w =
     (case import_error E w of
        Some m \<Rightarrow> (Inl (Exception m), log Import w)
      | None \<Rightarrow> (Inr (), log Import w))"

definition pikepdf_open :: "env \<Rightarrow> string \<Rightarrow> world \<Rightarrow> (exn + unit) \<times> world" where
  "pikepdf_open E inp w =
     (case open_error E w inp of
        Some m \<Rightarrow> (Inl (Exception m), log (LibOpen inp) w)
      | None \<Rightarrow> (Inr (), log (LibOpen inp) w))"

definition pikepdf_save :: "env \<Rightarrow> string \<Rightarrow> string \<Rightarrow> world \<Rightarrow> (exn + unit) \<times> world" where
  "pikepdf_save E inp out w =
     (let (err, fs') = save_result E w inp out;
          w' = log (LibSave inp out) (w\<lparr>fs := fs'\<rparr>)
      in case err of Some m \<Rightarrow> (Inl (Exception m), w') | None \<Rightarrow> (Inr (), w'))"

section \<open>Locating Ghostscript\<close>

fun which_any :: "env \<Rightarrow> world \<Rightarrow> string list \<Rightarrow> string option" where
  "which_any E w [] = None"
| "which_any E w (name # names) =
     (case which E w name of
        Some path \<Rightarrow> if path \<noteq> [] then Some path else which_any E w names
      | None \<Rightarrow> which_any E w names)"

definition contains :: "string \<Rightarrow> string \<Rightarrow> bool" where
  "contains sub s = list_ex (\<lambda>i. take (length sub) (drop i s) = sub) [0..<Suc (length s)]"

text \<open>
  The four glob patterns are raw strings whose components are separated by two
  backslashes; \<open>win_pattern\<close> writes one from its components.
\<close>

definition win_pattern :: "string list \<Rightarrow> string" where
  "win_pattern parts = foldr (\<lambda>a b. if b = [] then a else a @ [CHR 0x5C, CHR 0x5C] @ b) parts []"

definition probe_common_windows_paths :: "env \<Rightarrow> world \<Rightarrow> string option" where
  "probe_common_windows_paths E w =
     (let patterns =
            [win_pattern [''C:'', ''Program Files'', ''gs'', ''gs*'', ''bin'', ''gswin64c.exe''],
             win_pattern [''C:'', ''Program Files'', ''gs'', ''gs*'', ''bin'', ''gswin32c.exe''],
             win_pattern [''C:'', ''Program Files (x86)'', ''gs'', ''gs*'', ''bin'', ''gswin64c.exe''],
             win_pattern [''C:'', ''Program Files (x86)'', ''gs'', ''gs*'', ''bin'', ''gswin32c.exe'']];
          candidates = concat (map (glob E w) patterns);
          candidates_sorted = sort_key (\<lambda>p. (\<not> contains ''64c'' (basename p), p)) candidates
      in case candidates_sorted of [] \<Rightarrow> None | p # ps \<Rightarrow> Some p)"

fun bundled :: "world \<Rightarrow> string list \<Rightarrow> string option" where
  "bundled w [] = None"
| "bundled w (root # roots) =
     (if os_path_exists w (join (join root ''bin'') ''gswin64c.exe'')
      then Some (join (join root ''bin'') ''gswin64c.exe'')
      else if os_path_exists w (join (join root ''bin'') ''gswin32c.exe'')
      then Some (join (join root ''bin'') ''gswin32c.exe'')
      else bundled w roots)"

definition get_ghostscript_path :: "env \<Rightarrow> world \<Rightarrow> string option" where
  "get_ghostscript_path E w =
     (case bundled w (potential_roots E) of
        Some p \<Rightarrow> Some p
      | None \<Rightarrow>
          (case which_any E w [''gswin64c'', ''gswin64c.exe'', ''gswin32c'', ''gswin32c.exe'', ''gs''] of
             Some path \<Rightarrow> Some path
           | None \<Rightarrow>
               (case probe_common_windows_paths E w of
                  Some path \<Rightarrow> if path \<noteq> [] \<and> os_path_exists w path then Some path else None
                | None \<Rightarrow> None)))"

text \<open>Python's truth value of an \<open>Optional[str]\<close>: neither \<open>None\<close> nor empty.\<close>

definition truthy :: "string option \<Rightarrow> bool" where
  "truthy s = (case s of None \<Rightarrow> False | Some p \<Rightarrow> p \<noteq> [])"

section \<open>The compression backends\<close>

definition gs_failure_message :: "int \<Rightarrow> string \<Rightarrow> string \<Rightarrow> string" where
  "gs_failure_message rc out err =
     (if strip err \<noteq> [] then strip err
      else if strip out \<noteq> [] then strip out
      else ''Exited with code '' @ str_int rc)"

text \<open>The body of the \<open>try\<close> block: every exception in it becomes a failed result.\<close>

definition gs_try ::
  "env \<Rightarrow> string \<Rightarrow> string \<Rightarrow> quality \<Rightarrow> string \<Rightarrow> string \<Rightarrow> int option \<Rightarrow> world
     \<Rightarrow> CompressResult \<times> world" where
  "gs_try E inp out q gs_path tmp_out timeout w =
     (case subprocess_run E (gs_command gs_path q tmp_out inp) timeout w of
        (Timeout, w1) \<Rightarrow> (mk_result False Ghostscript inp out ''Ghostscript timed out'', w1)
      | (LaunchError m, w1) \<Rightarrow>
          (mk_result False Ghostscript inp out (''Ghostscript error: '' @ m), w1)
      | (Completed rc so se, w1) \<Rightarrow>
          if rc = 0 \<and> os_path_exists w1 tmp_out then
            let w2 = snd (os_makedirs E (if dirname out \<noteq> [] then dirname out else ''.'') w1)
            in case (if os_path_exists w2 out then os_remove E out w2 else (Inr (), w2)) of
                 (Inl e, w3) \<Rightarrow>
                   (mk_result False Ghostscript inp out (''Move failed: '' @ str_exn e), w3)
               | (Inr u, w3) \<Rightarrow>
                   (case shutil_move E tmp_out out w3 of
                      (Inl e, w4) \<Rightarrow>
                        (mk_result False Ghostscript inp out (''Move failed: '' @ str_exn e), w4)
                    | (Inr u', w4) \<Rightarrow>
                        (mk_result True Ghostscript inp out ''Compressed with Ghostscript'', w4))
          else (mk_result False Ghostscript inp out (gs_failure_message rc so se), w1))"

text \<open>The \<open>finally\<close> block: the removal's own exception is swallowed.\<close>

definition gs_finally :: "env \<Rightarrow> string \<Rightarrow> CompressResult \<times> world \<Rightarrow> CompressResult \<times> world" where
  "gs_finally E tmp_out rw =
     (case rw of (r, w) \<Rightarrow>
        if os_path_exists w tmp_out then (r, snd (os_remove E tmp_out w)) else (r, w))"

definition compress_with_ghostscript ::
  "env \<Rightarrow> string \<Rightarrow> string \<Rightarrow> quality \<Rightarrow> string option \<Rightarrow> int option \<Rightarrow> world
     \<Rightarrow> (exn + CompressResult) \<times> world" where
  "compress_with_ghostscript E inp out q gs_path timeout w0 =
     (let w = log (Enter Ghostscript) w0;
          gs_path = (case gs_path of None \<Rightarrow> get_ghostscript_path E w | Some g \<Rightarrow> Some g)
      in case gs_path of
           None \<Rightarrow> (Inr (mk_result False Ghostscript inp out ''Ghostscript not found''), w)
         | Some g \<Rightarrow>
             if g = [] \<or> \<not> os_path_exists w g
             then (Inr (mk_result False Ghostscript inp out ''Ghostscript not found''), w)
             else
               (case mkstemp E [] ''.pdf'' w of
                  (Inl e, w1) \<Rightarrow> (Inl e, w1)
                | (Inr tmp_out, w1) \<Rightarrow>
                    (case gs_finally E tmp_out (gs_try E inp out q g tmp_out timeout w1) of
                       (r, w2) \<Rightarrow> (Inr r, w2))))"

definition compress_with_pikepdf ::
  "env \<Rightarrow> string \<Rightarrow> string \<Rightarrow> quality \<Rightarrow> world \<Rightarrow> (exn + CompressResult) \<times> world" where
  "compress_with_pikepdf E inp out q w0 =
     (let w = log (Enter Basic) w0
      in case import_pikepdf E w of
           (Inl e, w1) \<Rightarrow>
             (Inr (mk_result False Basic inp out (''pikepdf not available: '' @ str_exn e)), w1)
         | (Inr u, w1) \<Rightarrow>
             (case pikepdf_open E inp w1 of
                (Inl e, w2) \<Rightarrow>
                  (Inr (mk_result False Basic inp out (''pikepdf error: '' @ str_exn e)), w2)
              | (Inr u', w2) \<Rightarrow>
                  (case pikepdf_save E inp out w2 of
                     (Inl e, w3) \<Rightarrow>
                       (Inr (mk_result False Basic inp out (''pikepdf error: '' @ str_exn e)), w3)
                   | (Inr u'', w3) \<Rightarrow>
                       if os_path_exists w3 out
                       then (Inr (mk_result True Basic inp out ''Compressed with pikepdf''), w3)
                       else (Inr (mk_result False Basic inp out ''Unknown error during save''), w3))))"

definition auto_compress ::
  "env \<Rightarrow> string \<Rightarrow> string \<Rightarrow> quality \<Rightarrow> world \<Rightarrow> (exn + CompressResult) \<times> world" where
  "auto_compress E inp out q w =
     (let gs = get_ghostscript_path E w
      in if truthy gs then
           (case compress_with_ghostscript E inp out q gs None w of
              (Inl e, w1) \<Rightarrow> (Inl e, w1)
            | (Inr res, w1) \<Rightarrow>
                if ok res then (Inr res, w1) else compress_with_pikepdf E inp out q w1)
         else compress_with_pikepdf E inp out q w)"

definition choose_engine ::
  "engine \<Rightarrow> env \<Rightarrow> string \<Rightarrow> string \<Rightarrow> quality \<Rightarrow> world \<Rightarrow> (exn + CompressResult) \<times> world" where
  "choose_engine e =
     (if e = Ghostscript then (\<lambda>E inp out q. compress_with_ghostscript E inp out q None None)
      else if e = Basic then compress_with_pikepdf
      else auto_compress)"

section \<open>Output paths\<close>

text \<open>
  The counting loop of \<open>ensure_unique_output_path\<close> has no bound: it is a partial
  function, and \<open>None\<close> stands for a loop that never returns.
\<close>

partial_function (option) unique_loop :: "world \<Rightarrow> string \<Rightarrow> string \<Rightarrow> nat \<Rightarrow> string option" where
  "unique_loop w root ext i =
     (if \<not> os_path_exists w (root @ '' ('' @ str_nat i @ '')'' @ ext)
      then Some (root @ '' ('' @ str_nat i @ '')'' @ ext)
      else unique_loop w root ext (i + 1))"

definition ensure_unique_output_path :: "world \<Rightarrow> string \<Rightarrow> string option" where
  "ensure_unique_output_path w base_path =
     (if \<not> os_path_exists w base_path then Some base_path
      else case splitext base_path of (root, ext) \<Rightarrow> unique_loop w root ext 1)"

definition default_output_path_for :: "world \<Rightarrow> string \<Rightarrow> string option \<Rightarrow> string option" where
  "default_output_path_for w src_path output_dir =
     (let name = basename src_path;
          stem = fst (splitext name);
          target_dir = (if truthy output_dir then the output_dir else dirname src_path);
          out = join target_dir (stem @ ''-compressed.pdf'')
      in ensure_unique_output_path w out)"

section \<open>Installing Ghostscript\<close>

definition GITHUB_RELEASE_API :: string where
  "GITHUB_RELEASE_API = ''https://api.github.com/repos/ArtifexSoftware/ghostpdl-downloads/releases/latest''"

definition arch_tag :: "env \<Rightarrow> string" where
  "arch_tag E = (if arch_64bit E then ''w64'' else ''w32'')"

text \<open>
  The asset pattern \<open>gs\d{5}<arch>\.exe$\<close>, searched ignoring case: the name ends
  (up to one final newline) with \<open>gs\<close>, five digits, the architecture tag and \<open>.exe\<close>.
\<close>

definition is_digit :: "char \<Rightarrow> bool" where
  "is_digit c = (c \<in> set ''0123456789'')"

definition asset_name_matches :: "string \<Rightarrow> string \<Rightarrow> bool" where
  "asset_name_matches arch name =
     (let n = (if endswith name [CHR 0x0A] then butlast name else name);
          k = 7 + length arch + 4;
          t = drop (length n - k) n
      in k \<le> length n \<and>
         lower (take 2 t) = ''gs'' \<and>
         list_all is_digit (take 5 (drop 2 t)) \<and>
         lower (take (length arch) (drop 7 t)) = lower arch \<and>
         lower (drop (7 + length arch) t) = ''.exe'')"

fun find_asset :: "string \<Rightarrow> (string \<times> string option) list \<Rightarrow> string option" where
  "find_asset arch [] = None"
| "find_asset arch ((name, browser_url) # assets) =
     (if asset_name_matches arch name \<and> truthy browser_url \<and> endswith (the browser_url) ''.exe''
      then browser_url
      else find_asset arch assets)"

definition fetch_latest_download_url :: "env \<Rightarrow> string \<Rightarrow> world \<Rightarrow> string option \<times> world" where
  "fetch_latest_download_url E arch w =
     (case release_assets E w GITHUB_RELEASE_API of
        Inl e \<Rightarrow> (None, log (HttpGet GITHUB_RELEASE_API) w)
      | Inr assets \<Rightarrow> (find_asset arch assets, log (HttpGet GITHUB_RELEASE_API) w))"

definition download_to_temp :: "env \<Rightarrow> string \<Rightarrow> world \<Rightarrow> string option \<times> world" where
  "download_to_temp E url w =
     (case urlopen_error E w url of
        Some m \<Rightarrow> (None, log (UrlOpen url) w)
      | None \<Rightarrow>
          (case mkstemp E ''gs-setup-'' ''.exe'' (log (UrlOpen url) w) of
             (Inl e, w1) \<Rightarrow> (None, w1)
           | (Inr path, w1) \<Rightarrow>
               (case copy_result E w1 url path of
                  (Some m, n) \<Rightarrow> (None, w1\<lparr>fs := (fs w1)(path \<mapsto> File n)\<rparr>)
                | (None, n) \<Rightarrow> (Some path, w1\<lparr>fs := (fs w1)(path \<mapsto> File n)\<rparr>))))"

definition run_installer :: "env \<Rightarrow> string \<Rightarrow> bool \<Rightarrow> world \<Rightarrow> bool \<times> world" where
  "run_installer E installer_path silent w =
     (case subprocess_run E (if silent then [installer_path, ''/S''] else [installer_path]) (Some 600) w of
        (Completed rc so se, w1) \<Rightarrow>
          if rc = 0 then (True, w1)
          else if silent then
            (case subprocess_run E [installer_path] (Some 600) w1 of
               (Completed rc2 so2 se2, w2) \<Rightarrow> (rc2 = 0, w2)
             | (Timeout, w2) \<Rightarrow> (False, w2)
             | (LaunchError m, w2) \<Rightarrow> (False, w2))
          else (False, w1)
      | (Timeout, w1) \<Rightarrow> (False, w1)
      | (LaunchError m, w1) \<Rightarrow> (False, w1))"

definition ensure_ghostscript_installed :: "env \<Rightarrow> bool \<Rightarrow> world \<Rightarrow> string option \<times> world" where
  "ensure_ghostscript_installed E auto_install w =
     (let gs = get_ghostscript_path E w
      in if truthy gs then (gs, w)
         else if \<not> auto_install then (None, w)
         else
           (case fetch_latest_download_url E (arch_tag E) w of
              (url, w1) \<Rightarrow>
                if \<not> truthy url then (None, w1)
                else
                  (case download_to_temp E (the url) w1 of
                     (installer, w2) \<Rightarrow>
                       if \<not> truthy installer then (None, w2)
                       else
                         (case run_installer E (the installer) True w2 of
                            (installed, w3) \<Rightarrow>
                              let w4 = snd (os_remove E (the installer) w3)
                              in if \<not> installed then (None, w4)
                                 else (get_ghostscript_path E w4, w4)))))"

section \<open>The command line\<close>

record args =
  arg_input :: "string option"
  arg_output :: "string option"
  arg_engine :: engine
  arg_auto_install_ghostscript :: bool
  arg_quality :: quality

type_synonym compressor = "string \<Rightarrow> string \<Rightarrow> quality \<Rightarrow> world \<Rightarrow> (exn + CompressResult) \<times> world"

definition is_pdf_name :: "string \<Rightarrow> bool" where
  "is_pdf_name p = endswith (lower p) ''.pdf''"

definition out_arg_is_pdf :: "string option \<Rightarrow> bool" where
  "out_arg_is_pdf out_arg = (truthy out_arg \<and> lower (snd (splitext (the out_arg))) = ''.pdf'')"

text \<open>
  The functions of the command line return \<open>None\<close> when the counting loop of the
  output path never returns, \<open>Inl\<close> for an exception that nothing catches, and
  \<open>Inr\<close> otherwise.
\<close>

definition compress_one ::
  "compressor \<Rightarrow> string option \<Rightarrow> quality \<Rightarrow> string \<Rightarrow> string option \<Rightarrow> world
     \<Rightarrow> ((exn + string \<times> bool \<times> string) \<times> world) option" where
  "compress_one compressor out_arg q src out_dir w =
     (case (if out_arg_is_pdf out_arg then out_arg else default_output_path_for w src out_dir) of
        None \<Rightarrow> None
      | Some out_path \<Rightarrow>
          (case compressor src out_path q w of
             (Inl e, w1) \<Rightarrow> Some (Inl e, w1)
           | (Inr res, w1) \<Rightarrow> Some (Inr (out_path, ok res, message res), w1)))"

fun compress_loop ::
  "compressor \<Rightarrow> string option \<Rightarrow> quality \<Rightarrow> string option \<Rightarrow> string list \<Rightarrow> nat \<Rightarrow> world
     \<Rightarrow> ((exn + nat) \<times> world) option" where
  "compress_loop compressor out_arg q out_dir [] ok_count w = Some (Inr ok_count, w)"
| "compress_loop compressor out_arg q out_dir (p # ps) ok_count w =
     (case compress_one compressor out_arg q p out_dir w of
        None \<Rightarrow> None
      | Some (Inl e, w1) \<Rightarrow> Some (Inl e, w1)
      | Some (Inr (out_path, b, msg), w1) \<Rightarrow>
          compress_loop compressor out_arg q out_dir ps (if b then ok_count + 1 else ok_count) w1)"

definition make_out_dir :: "env \<Rightarrow> string option \<Rightarrow> world \<Rightarrow> (exn + unit) \<times> world" where
  "make_out_dir E out_dir w =
     (if truthy out_dir \<and> \<not> os_path_exists w (the out_dir)
      then os_makedirs E (the out_dir) w
      else (Inr (), w))"

definition list_pdfs :: "world \<Rightarrow> string \<Rightarrow> string list \<Rightarrow> string list" where
  "list_pdfs w in_path names =
     map (join in_path) (filter (\<lambda>f. is_pdf_name f \<and> os_path_isfile w (join in_path f)) names)"

definition run_folder ::
  "env \<Rightarrow> compressor \<Rightarrow> string option \<Rightarrow> quality \<Rightarrow> string \<Rightarrow> world
     \<Rightarrow> ((exn + int) \<times> world) option" where
  "run_folder E compressor out_arg q in_path w =
     (case make_out_dir E out_arg w of
        (Inl e, w1) \<Rightarrow> Some (Inl e, w1)
      | (Inr u, w1) \<Rightarrow>
          (case listdir_result E w1 in_path of
             Inl e \<Rightarrow> Some (Inl e, w1)
           | Inr names \<Rightarrow>
               let pdfs = list_pdfs w1 in_path names
               in if pdfs = [] then Some (Inr 1, w1)
                  else
                    (case compress_loop compressor out_arg q out_arg pdfs 0 w1 of
                       None \<Rightarrow> None
                     | Some (Inl e, w2) \<Rightarrow> Some (Inl e, w2)
                     | Some (Inr ok_count, w2) \<Rightarrow>
                         Some (Inr (if ok_count = length pdfs then 0 else 2), w2))))"

definition run_single ::
  "env \<Rightarrow> compressor \<Rightarrow> string option \<Rightarrow> quality \<Rightarrow> string \<Rightarrow> world
     \<Rightarrow> ((exn + int) \<times> world) option" where
  "run_single E compressor out_arg q in_path w =
     (if \<not> (is_pdf_name in_path \<and> os_path_exists w in_path) then Some (Inr 1, w)
      else
        let out_dir = (if out_arg_is_pdf out_arg then None else out_arg)
        in case make_out_dir E out_dir w of
             (Inl e, w1) \<Rightarrow> Some (Inl e, w1)
           | (Inr u, w1) \<Rightarrow>
               (case compress_one compressor out_arg q in_path out_dir w1 of
                  None \<Rightarrow> None
                | Some (Inl e, w2) \<Rightarrow> Some (Inl e, w2)
                | Some (Inr (out_path, b, msg), w2) \<Rightarrow> Some (Inr (if b then 0 else 2), w2)))"

definition run_gui :: "env \<Rightarrow> world \<Rightarrow> ((exn + int) \<times> world) option" where
  "run_gui E w =
     (let w1 = snd (ensure_ghostscript_installed E True w)
      in case gui_result E w1 of
           GuiImportFailed \<Rightarrow> Some (Inr 2, w1)
         | GuiRuntimeError \<Rightarrow> Some (Inr 2, w1)
         | GuiReturned \<Rightarrow> Some (Inr 0, w1))"

text \<open>
  The absolute paths of the arguments, and the optional installation before the run
  (its result is not used and its exceptions are swallowed).
\<close>

definition cli_in_path :: "env \<Rightarrow> args \<Rightarrow> string" where
  "cli_in_path E a = abspath E (the (arg_input a))"

definition cli_out_arg :: "env \<Rightarrow> args \<Rightarrow> string option" where
  "cli_out_arg E a =
     (if truthy (arg_output a) then Some (abspath E (the (arg_output a))) else None)"

definition cli_auto_install :: "env \<Rightarrow> args \<Rightarrow> world \<Rightarrow> world" where
  "cli_auto_install E a w =
     (if arg_auto_install_ghostscript a \<and> arg_engine a \<in> {Ghostscript, Auto}
      then snd (ensure_ghostscript_installed E True w)
      else w)"

definition run_cli :: "env \<Rightarrow> args \<Rightarrow> world \<Rightarrow> ((exn + int) \<times> world) option" where
  "run_cli E a w =
     (if \<not> truthy (arg_input a) then run_gui E w
      else
        let in_path = cli_in_path E a;
            out_arg = cli_out_arg E a;
            compressor = choose_engine (arg_engine a) E;
            w1 = cli_auto_install E a w
        in if os_path_isdir w1 in_path
           then run_folder E compressor out_arg (arg_quality a) in_path w1
           else run_single E compressor out_arg (arg_quality a) in_path w1)"

text \<open>
  The entry point is \<open>sys.exit(_run_cli())\<close>: the status of the process is the code
  that \<open>_run_cli\<close> returns; when an exception leaves \<open>_run_cli\<close> nothing catches it,
  the interpreter prints the traceback and the status is 1.
\<close>

definition exit_status :: "env \<Rightarrow> args \<Rightarrow> world \<Rightarrow> int option" where
  "exit_status E a w =
     (case run_cli E a w of
        None \<Rightarrow> None
      | Some (Inl e, w1) \<Rightarrow> Some 1
      | Some (Inr code, w1) \<Rightarrow> Some code)"

section \<open>Notions used to state the properties\<close>

text \<open>How often a backend was entered, by the trace.\<close>

definition enters :: "engine \<Rightarrow> world \<Rightarrow> nat" where
  "enters e w = count_list (trace w) (Enter e)"

text \<open>
  The tuning flags as the specification describes them: downsampling of colour and
  grey images (by averaging) and of monochrome images (by subsampling) to given
  resolutions, JPEG encoding forced at a given quality factor; and the three flags for
  duplicate images and fonts.
\<close>

definition spec_downsampling_flags :: "nat \<Rightarrow> nat \<Rightarrow> nat \<Rightarrow> string list" where
  "spec_downsampling_flags dpi mono_dpi jpegq =
     [''-dDownsampleColorImages=true'',
      ''-dColorImageDownsampleType=/Average'',
      ''-dColorImageResolution='' @ str_nat dpi,
      ''-dDownsampleGrayImages=true'',
      ''-dGrayImageDownsampleType=/Average'',
      ''-dGrayImageResolution='' @ str_nat dpi,
      ''-dDownsampleMonoImages=true'',
      ''-dMonoImageDownsampleType=/Subsample'',
      ''-dMonoImageResolution='' @ str_nat mono_dpi,
      ''-dAutoFilterColorImages=false'',
      ''-dColorImageFilter=/DCTEncode'',
      ''-dAutoFilterGrayImages=false'',
      ''-dGrayImageFilter=/DCTEncode'',
      ''-dJPEGQ='' @ str_nat jpegq]"

definition spec_size_savers :: "string list" where
  "spec_size_savers =
     [''-dDetectDuplicateImages=true'', ''-dSubsetFonts=true'', ''-dCompressFonts=true'']"


section \<open>Scenarios\<close>

text \<open>
  Concrete worlds and environments at which the properties are instantiated. In
  \<open>demo_env\<close> Ghostscript is on the search path, exits with status 0 and writes
  nothing; the PDF library saves a file of ten bytes; the network is down. In
  \<open>no_temp_env\<close> no temporary file can be created. In \<open>locked_env\<close> Ghostscript
  fails and no file can be removed.
\<close>

definition demo_world :: world where
  "demo_world =
     \<lparr>fs = [''/usr/bin/gs'' \<mapsto> File 1000, ''/docs/in.pdf'' \<mapsto> File 5000,
             ''/docs'' \<mapsto> Dir, ''/tmp'' \<mapsto> Dir],
      trace = []\<rparr>"

definition demo_env :: env where
  "demo_env =
     \<lparr>potential_roots = [],
      which = (\<lambda>w name. if name = ''gs'' then Some ''/usr/bin/gs'' else None),
      glob = (\<lambda>w pattern. []),
      mkstemp_result = (\<lambda>w pre suf. Inr (''/tmp/'' @ pre @ ''tmp0'' @ suf)),
      run_result = (\<lambda>w cmd timeout. (Completed 0 [] [], fs w)),
      makedirs_error = (\<lambda>w p. None),
      remove_error = (\<lambda>w p. None),
      move_error = (\<lambda>w src dst. None),
      import_error = (\<lambda>w. None),
      open_error = (\<lambda>w p. None),
      save_result = (\<lambda>w inp out. (None, (fs w)(out \<mapsto> File 10))),
      arch_64bit = True,
      release_assets = (\<lambda>w url. Inl (Exception ''offline'')),
      urlopen_error = (\<lambda>w url. Some ''offline''),
      copy_result = (\<lambda>w url p. (None, 0)),
      listdir_result = (\<lambda>w p. Inr []),
      abspath = (\<lambda>p. p),
      gui_result = (\<lambda>w. GuiReturned)\<rparr>"

definition no_temp_env :: env where
  "no_temp_env =
     demo_env\<lparr>mkstemp_result :=
       (\<lambda>w pre suf. Inl (Exception ''No usable temporary directory found''))\<rparr>"

definition locked_env :: env where
  "locked_env =
     demo_env\<lparr>run_result := (\<lambda>w cmd timeout. (Completed 1 [] ''Error: /undefined in pdfopen'', fs w)),
              remove_error := (\<lambda>w p. Some ''PermissionError'')\<rparr>"

text \<open>
  In \<open>docs_world\<close> the directory of \<open>a.pdf\<close> already holds \<open>a-compressed.pdf\<close> and
  \<open>a-compressed (1).pdf\<close>.
\<close>

definition docs_world :: world where
  "docs_world =
     \<lparr>fs = [''/docs'' \<mapsto> Dir, ''/docs/a.pdf'' \<mapsto> File 5000,
             ''/docs/a-compressed.pdf'' \<mapsto> File 3000,
             ''/docs/a-compressed (1).pdf'' \<mapsto> File 3000],
      trace = []\<rparr>"


definition install_env :: env where
  "install_env =
     demo_env\<lparr>which := (\<lambda>w name. None),
              release_assets := (\<lambda>w url. Inr [(''gs10040w64.exe'', Some ''https://example.org/gs10040w64.exe'')]),
              urlopen_error := (\<lambda>w url. None),
              copy_result := (\<lambda>w url p. (None, 50000000)),
              run_result := (\<lambda>w cmd timeout. (Completed 1 [] [], fs w))\<rparr>"


text \<open>
  In \<open>install_cut_env\<close> the connection is lost while the installer is copied to the
  temporary file, after 12345 bytes.
\<close>

definition install_cut_env :: env where
  "install_cut_env =
     install_env\<lparr>copy_result := (\<lambda>w url p. (Some ''Connection reset by peer'', 12345))\<rparr>"





text \<open>
  \<open>file_args\<close> is the invocation \<open>--input /docs/in.pdf\<close>, with the engine \<open>auto\<close> and
  the quality \<open>balanced\<close> that are the defaults; \<open>gs_file_args\<close> adds
  \<open>--engine ghostscript\<close>.
\<close>

definition file_args :: args where
  "file_args =
     \<lparr>arg_input = Some ''/docs/in.pdf'', arg_output = None, arg_engine = Auto,
      arg_auto_install_ghostscript = False, arg_quality = Balanced\<rparr>"

definition gs_file_args :: args where
  "gs_file_args = file_args\<lparr>arg_engine := Ghostscript\<rparr>"

section \<open>Properties\<close>

subsection \<open>Quality presets\<close>

text \<open>
  C2: the preset is mapped to the profile extreme to screen, strong to screen, balanced
  to ebook and high to printer; the tuning flags are, for extreme, the downsampling
  flags at 72 and 150 DPI with JPEG quality 20 followed by duplicate-image detection
  and font subsetting and compression, for strong the same at 96 and 180 DPI and
  quality 35, and for balanced and high only the latter three. The flags stand in the
  command after \<open>-dNOPAUSE\<close>.
\<close>

theorem quality_presets:
  "map_quality_to_pdfsettings Extreme = ''screen'' \<and>
   map_quality_to_pdfsettings Strong = ''screen'' \<and>
   map_quality_to_pdfsettings Balanced = ''ebook'' \<and>
   map_quality_to_pdfsettings High = ''printer'' \<and>
   ghostscript_extra_args_for_quality Extreme = spec_downsampling_flags 72 150 20 @ spec_size_savers \<and>
   ghostscript_extra_args_for_quality Strong = spec_downsampling_flags 96 180 35 @ spec_size_savers \<and>
   ghostscript_extra_args_for_quality Balanced = spec_size_savers \<and>
   ghostscript_extra_args_for_quality High = spec_size_savers \<and>
   gs_command g q t i =
     [g, ''-sDEVICE=pdfwrite'', ''-dCompatibilityLevel=1.4'',
      ''-dPDFSETTINGS=/'' @ map_quality_to_pdfsettings q, ''-dNOPAUSE'']
     @ ghostscript_extra_args_for_quality q
     @ [''-dQUIET'', ''-dBATCH'', ''-sOutputFile='' @ t, i]"
  by (simp add: ghostscript_extra_args_for_quality_def spec_downsampling_flags_def
      spec_size_savers_def gs_command_def str_nat.simps digit_char_def)

subsection \<open>The paths through the backends\<close>


lemma enters_fs_update [simp]: "enters e (w\<lparr>fs := f\<rparr>) = enters e w"
  by (simp add: enters_def)









text \<open>The paths through the \<open>try\<close> block, with the worlds in between.\<close>

lemma gs_try_cases [consumes 1, case_names timeout launch exit rm_failed mv_failed moved]:
  assumes "gs_try E inp out q g tmp t w = (r, w')"
  obtains
    "subprocess_run E (gs_command g q tmp inp) t w = (Timeout, w')"
    "r = mk_result False Ghostscript inp out ''Ghostscript timed out''"
  | m where
    "subprocess_run E (gs_command g q tmp inp) t w = (LaunchError m, w')"
    "r = mk_result False Ghostscript inp out (''Ghostscript error: '' @ m)"
  | rc so se where
    "subprocess_run E (gs_command g q tmp inp) t w = (Completed rc so se, w')"
    "\<not> (rc = 0 \<and> os_path_exists w' tmp)"
    "r = mk_result False Ghostscript inp out (gs_failure_message rc so se)"
  | so se w1 mr w2 e where
    "subprocess_run E (gs_command g q tmp inp) t w = (Completed 0 so se, w1)"
    "os_path_exists w1 tmp"
    "os_makedirs E (if dirname out \<noteq> [] then dirname out else ''.'') w1 = (mr, w2)"
    "os_path_exists w2 out"
    "os_remove E out w2 = (Inl e, w')"
    "r = mk_result False Ghostscript inp out (''Move failed: '' @ str_exn e)"
  | so se w1 mr w2 w3 e where
    "subprocess_run E (gs_command g q tmp inp) t w = (Completed 0 so se, w1)"
    "os_path_exists w1 tmp"
    "os_makedirs E (if dirname out \<noteq> [] then dirname out else ''.'') w1 = (mr, w2)"
    "(if os_path_exists w2 out then os_remove E out w2 else (Inr (), w2)) = (Inr (), w3)"
    "shutil_move E tmp out w3 = (Inl e, w')"
    "r = mk_result False Ghostscript inp out (''Move failed: '' @ str_exn e)"
  | so se w1 mr w2 w3 where
    "subprocess_run E (gs_command g q tmp inp) t w = (Completed 0 so se, w1)"
    "os_path_exists w1 tmp"
    "os_makedirs E (if dirname out \<noteq> [] then dirname out else ''.'') w1 = (mr, w2)"
    "(if os_path_exists w2 out then os_remove E out w2 else (Inr (), w2)) = (Inr (), w3)"
    "shutil_move E tmp out w3 = (Inr (), w')"
    "r = mk_result True Ghostscript inp out ''Compressed with Ghostscript''"
proof -
  obtain pr w1 where run: "subprocess_run E (gs_command g q tmp inp) t w = (pr, w1)"
    by (cases "subprocess_run E (gs_command g q tmp inp) t w")
  obtain mr w2 where mk: "os_makedirs E (if dirname out \<noteq> [] then dirname out else ''.'') w1 = (mr, w2)"
    by (cases "os_makedirs E (if dirname out \<noteq> [] then dirname out else ''.'') w1")
  obtain rr w3 where rm: "(if os_path_exists w2 out then os_remove E out w2 else (Inr (), w2)) = (rr, w3)"
    by (cases "(if os_path_exists w2 out then os_remove E out w2 else (Inr (), w2))")
  obtain vr w4 where mv: "shutil_move E tmp out w3 = (vr, w4)"
    by (cases "shutil_move E tmp out w3")
  show ?thesis
  proof (cases pr)
    case Timeout
    then show ?thesis using assms run that(1) by (simp add: gs_try_def)
  next
    case (LaunchError m)
    then show ?thesis using assms run that(2) by (simp add: gs_try_def)
  next
    case (Completed rc so se)
    show ?thesis
    proof (cases "rc = 0 \<and> os_path_exists w1 tmp")
      case False
      then show ?thesis using assms run Completed that(3) [of rc so se]
        by (auto simp: gs_try_def)
    next
      case True
      show ?thesis
      proof (cases rr)
        case (Inl e)
        then have ex: "os_path_exists w2 out" and rm': "os_remove E out w2 = (Inl e, w3)"
          using rm by (auto split: if_splits)
        show ?thesis
          using assms run Completed True mk rm Inl ex rm' that(4) [of so se w1 mr w2 e]
          by (simp add: gs_try_def)
      next
        case (Inr u)
        show ?thesis
        proof (cases vr)
          case (Inl e)
          show ?thesis
            using assms run Completed True mk rm mv Inl \<open>rr = Inr u\<close>
              that(5) [of so se w1 mr w2 w3 e]
            by (simp add: gs_try_def)
        next
          case (Inr u')
          show ?thesis
            using assms run Completed True mk rm mv Inr \<open>rr = Inr u\<close>
              that(6) [of so se w1 mr w2 w3]
            by (simp add: gs_try_def)
        qed
      qed
    qed
  qed
qed




lemma ghostscript_cases [consumes 1, case_names not_found no_temp ran]:
  assumes "compress_with_ghostscript E inp out q gs t w = (res, w')"
  obtains
    "res = Inr (mk_result False Ghostscript inp out ''Ghostscript not found'')"
    "w' = log (Enter Ghostscript) w"
  | g e where
    "(case gs of None \<Rightarrow> get_ghostscript_path E (log (Enter Ghostscript) w) | Some p \<Rightarrow> Some p) = Some g"
    "g \<noteq> []" "os_path_exists (log (Enter Ghostscript) w) g"
    "mkstemp E [] ''.pdf'' (log (Enter Ghostscript) w) = (Inl e, w')" "res = Inl e"
  | g tmp w1 w2 r where
    "(case gs of None \<Rightarrow> get_ghostscript_path E (log (Enter Ghostscript) w) | Some p \<Rightarrow> Some p) = Some g"
    "g \<noteq> []" "os_path_exists (log (Enter Ghostscript) w) g"
    "mkstemp E [] ''.pdf'' (log (Enter Ghostscript) w) = (Inr tmp, w1)"
    "gs_try E inp out q g tmp t w1 = (r, w2)"
    "gs_finally E tmp (r, w2) = (r, w')"
    "res = Inr r"
proof -
  let ?w = "log (Enter Ghostscript) w"
  let ?gs = "(case gs of None \<Rightarrow> get_ghostscript_path E ?w | Some p \<Rightarrow> Some p)"
  show ?thesis
  proof (cases ?gs)
    case None
    then show ?thesis using assms that(1) by (simp add: compress_with_ghostscript_def)
  next
    case (Some g)
    show ?thesis
    proof (cases "g = [] \<or> \<not> os_path_exists ?w g")
      case True
      then show ?thesis using assms Some that(1) by (auto simp: compress_with_ghostscript_def)
    next
      case False
      obtain mr w1 where mk: "mkstemp E [] ''.pdf'' ?w = (mr, w1)"
        by (cases "mkstemp E [] ''.pdf'' ?w")
      show ?thesis
      proof (cases mr)
        case (Inl e)
        then show ?thesis using assms Some False mk that(2) [of g e]
          by (auto simp: compress_with_ghostscript_def)
      next
        case (Inr tmp)
        obtain r w2 where tr: "gs_try E inp out q g tmp t w1 = (r, w2)"
          by (cases "gs_try E inp out q g tmp t w1")
        obtain r' w3 where fin: "gs_finally E tmp (r, w2) = (r', w3)"
          by (cases "gs_finally E tmp (r, w2)")
        have "r' = r" using fin by (auto simp: gs_finally_def split: if_splits)
        then show ?thesis using assms Some False mk Inr tr fin that(3) [of g tmp w1 r w2]
          by (auto simp: compress_with_ghostscript_def)
      qed
    qed
  qed
qed


lemma pikepdf_cases [consumes 1, case_names no_library open_failed save_failed no_output saved]:
  assumes "compress_with_pikepdf E inp out q w = (res, w')"
  obtains
    e where "import_pikepdf E (log (Enter Basic) w) = (Inl e, w')"
      "res = Inr (mk_result False Basic inp out (''pikepdf not available: '' @ str_exn e))"
  | w1 e where "import_pikepdf E (log (Enter Basic) w) = (Inr (), w1)"
      "pikepdf_open E inp w1 = (Inl e, w')"
      "res = Inr (mk_result False Basic inp out (''pikepdf error: '' @ str_exn e))"
  | w1 w2 e where "import_pikepdf E (log (Enter Basic) w) = (Inr (), w1)"
      "pikepdf_open E inp w1 = (Inr (), w2)"
      "pikepdf_save E inp out w2 = (Inl e, w')"
      "res = Inr (mk_result False Basic inp out (''pikepdf error: '' @ str_exn e))"
  | w1 w2 where "import_pikepdf E (log (Enter Basic) w) = (Inr (), w1)"
      "pikepdf_open E inp w1 = (Inr (), w2)"
      "pikepdf_save E inp out w2 = (Inr (), w')"
      "\<not> os_path_exists w' out"
      "res = Inr (mk_result False Basic inp out ''Unknown error during save'')"
  | w1 w2 where "import_pikepdf E (log (Enter Basic) w) = (Inr (), w1)"
      "pikepdf_open E inp w1 = (Inr (), w2)"
      "pikepdf_save E inp out w2 = (Inr (), w')"
      "os_path_exists w' out"
      "res = Inr (mk_result True Basic inp out ''Compressed with pikepdf'')"
proof -
  obtain ir w1 where im: "import_pikepdf E (log (Enter Basic) w) = (ir, w1)"
    by (cases "import_pikepdf E (log (Enter Basic) w)")
  obtain opr w2 where op: "pikepdf_open E inp w1 = (opr, w2)"
    by (cases "pikepdf_open E inp w1")
  obtain sr w3 where sv: "pikepdf_save E inp out w2 = (sr, w3)"
    by (cases "pikepdf_save E inp out w2")
  show ?thesis
    using assms im op sv that
    by (cases ir; cases opr; cases sr; cases "os_path_exists w3 out")
       (simp_all add: compress_with_pikepdf_def)
qed


subsection \<open>The basic backend and the quality preset\<close>

text \<open>
  C9: for the same input path, output path and world, the basic backend makes the
  same library calls, leaves the same world and returns the same result whatever
  the quality preset.
\<close>

theorem basic_ignores_quality:
  "compress_with_pikepdf E inp out q1 w = compress_with_pikepdf E inp out q2 w"
  by (simp add: compress_with_pikepdf_def)

subsection \<open>The automatic engine\<close>


subsection \<open>Evaluation in the scenarios\<close>

lemmas prim_defs = mkstemp_def subprocess_run_def os_remove_def shutil_move_def os_makedirs_def
  import_pikepdf_def pikepdf_open_def pikepdf_save_def log_def os_path_exists_def

lemmas path_defs = dirname_def basename_def rfind_def sep_def rstrip_sep_def join_def
  startswith_def endswith_def

lemmas backend_defs = compress_with_ghostscript_def gs_try_def gs_finally_def
  compress_with_pikepdf_def auto_compress_def mk_result_def gs_failure_message_def

subsection \<open>File system and trace under the calls\<close>

lemma mkstemp_created:
  assumes "mkstemp E pre suf w = (Inr p, w')"
  shows "fs w p = None" and "fs w' = (fs w)(p \<mapsto> File 0)" and "trace w' = trace w @ [MkTemp p]"
  using assms by (auto simp: mkstemp_def log_def split: sum.splits if_splits)

lemma subprocess_run_trace:
  "subprocess_run E cmd t w = (r, w') \<Longrightarrow> trace w' = trace w @ [Spawn cmd]"
  by (auto simp: subprocess_run_def log_def split: prod.splits)

lemma os_remove_result:
  assumes "os_remove E p w = (r, w')"
  shows "(r = Inr () \<and> fs w' = (fs w)(p := None) \<and> trace w' = trace w @ [Remove p True]) \<or>
         ((\<exists>e. r = Inl e) \<and> fs w' = fs w \<and> trace w' = trace w @ [Remove p False])"
  using assms by (auto simp: os_remove_def log_def split: option.splits entry.splits)

lemma os_makedirs_result:
  assumes "os_makedirs E p w = (r, w')"
  shows "trace w' = trace w @ [Makedirs p]"
    and "fs w' = fs w \<or> (fs w p = None \<and> fs w' = (fs w)(p \<mapsto> Dir))"
  using assms by (auto simp: os_makedirs_def log_def split: option.splits entry.splits)

lemma shutil_move_trace:
  "shutil_move E src dst w = (r, w') \<Longrightarrow> trace w' = trace w @ [Move src dst]"
  by (auto simp: shutil_move_def log_def Let_def split: option.splits if_splits)

lemma shutil_move_failed:
  "shutil_move E src dst w = (Inl e, w') \<Longrightarrow> fs w' = fs w"
  by (auto simp: shutil_move_def log_def Let_def split: option.splits if_splits)

lemma shutil_move_fresh:
  assumes "shutil_move E src dst w = (Inr (), w')" and "fs w dst = None"
  shows "src \<noteq> dst" and "fs w' dst = fs w src" and "fs w src \<noteq> None" and "fs w' src = None"
  using assms by (auto simp: shutil_move_def log_def Let_def split: option.splits if_splits)

lemma gs_rm_result:
  assumes "(if os_path_exists w out then os_remove E out w else (Inr (), w)) = (r, w')"
  shows "\<exists>es. trace w' = trace w @ es"
    and "r = Inr () \<Longrightarrow> fs w' out = None"
    and "fs w' = fs w \<or> fs w' = (fs w)(out := None)"
proof -
  show "\<exists>es. trace w' = trace w @ es"
    using assms os_remove_result [of E out w r w'] by (auto split: if_splits)
  show "r = Inr () \<Longrightarrow> fs w' out = None"
    using assms os_remove_result [of E out w r w']
    by (auto simp: os_path_exists_def split: if_splits)
  show "fs w' = fs w \<or> fs w' = (fs w)(out := None)"
    using assms os_remove_result [of E out w r w'] by (auto split: if_splits)
qed

lemma gs_finally_result:
  assumes "gs_finally E tmp (r, w) = (r', w')"
  shows "r' = r" and "\<exists>es. trace w' = trace w @ es"
    and "fs w' tmp = None \<or> Remove tmp False \<in> set (trace w')"
    and "fs w tmp = None \<Longrightarrow> w' = w"
proof -
  obtain x w1 where rm: "os_remove E tmp w = (x, w1)"
    by (cases "os_remove E tmp w")
  note res = os_remove_result [OF rm]
  show "r' = r" using assms by (auto simp: gs_finally_def split: if_splits)
  show "\<exists>es. trace w' = trace w @ es"
    using assms rm res by (auto simp: gs_finally_def split: if_splits)
  show "fs w' tmp = None \<or> Remove tmp False \<in> set (trace w')"
    using assms rm res by (auto simp: gs_finally_def os_path_exists_def split: if_splits)
  show "fs w tmp = None \<Longrightarrow> w' = w"
    using assms by (auto simp: gs_finally_def os_path_exists_def split: if_splits)
qed

text \<open>The \<open>try\<close> block starts the process first and only appends to the trace after.\<close>

lemma gs_try_trace:
  assumes "gs_try E inp out q g tmp t w = (r, w')"
  shows "\<exists>es. trace w' = trace w @ [Spawn (gs_command g q tmp inp)] @ es"
  using assms
proof (cases rule: gs_try_cases)
  case timeout
  then show ?thesis by (auto dest: subprocess_run_trace)
next
  case (launch m)
  then show ?thesis by (auto dest: subprocess_run_trace)
next
  case (exit rc so se)
  then show ?thesis by (auto dest: subprocess_run_trace)
next
  case (rm_failed so se w1 mr w2 e)
  then show ?thesis
    using subprocess_run_trace [of E _ t w _ w1] os_makedirs_result(1) [of E _ w1 mr w2]
      os_remove_result [of E out w2 "Inl e" w']
    by auto
next
  case (mv_failed so se w1 mr w2 w3 e)
  then show ?thesis
    using subprocess_run_trace [of E _ t w _ w1] os_makedirs_result(1) [of E _ w1 mr w2]
      gs_rm_result(1) [of w2 out E "Inr ()" w3] shutil_move_trace [of E tmp out w3 _ w']
    by auto
next
  case (moved so se w1 mr w2 w3)
  then show ?thesis
    using subprocess_run_trace [of E _ t w _ w1] os_makedirs_result(1) [of E _ w1 mr w2]
      gs_rm_result(1) [of w2 out E "Inr ()" w3] shutil_move_trace [of E tmp out w3 _ w']
    by auto
qed

text \<open>A successful \<open>try\<close> block leaves the output in place and the temporary file gone.\<close>

lemma gs_try_ok:
  assumes "gs_try E inp out q g tmp t w = (r, w')" and "ok r"
  shows "os_path_exists w' out \<and> fs w' tmp = None \<and> output_path r = out"
  using assms(1)
proof (cases rule: gs_try_cases)
  case (moved so se w1 mr w2 w3)
  have free: "fs w3 out = None"
    using gs_rm_result(2) [OF moved(4)] by simp
  note mv = shutil_move_fresh [OF moved(5) free]
  show ?thesis using mv moved(6) by (simp add: os_path_exists_def mk_result_def)
qed (use assms(2) in \<open>simp_all add: mk_result_def\<close>)

lemma ghostscript_ok:
  assumes "compress_with_ghostscript E inp out q gs t w = (Inr r, w')" and "ok r"
  shows "output_path r = out \<and> os_path_exists w' out"
  using assms(1)
proof (cases rule: ghostscript_cases)
  case not_found
  then show ?thesis using assms(2) by (simp add: mk_result_def)
next
  case (no_temp g e)
  then show ?thesis by simp
next
  case (ran g tmp w1 w2 r')
  then have r: "r' = r" by simp
  note k = gs_try_ok [OF ran(5) [unfolded r] assms(2)]
  have "w' = w2" using gs_finally_result(4) [OF ran(6) [unfolded r]] k by simp
  then show ?thesis using k by simp
qed

lemma pikepdf_ok:
  assumes "compress_with_pikepdf E inp out q w = (Inr r, w')" and "ok r"
  shows "output_path r = out \<and> os_path_exists w' out"
  using assms by (cases rule: pikepdf_cases) (auto simp: mk_result_def)

lemma auto_ok:
  assumes "auto_compress E inp out q w = (Inr r, w')" and "ok r"
  shows "output_path r = out \<and> os_path_exists w' out"
proof -
  let ?gs = "get_ghostscript_path E w"
  obtain pr w1 where p: "compress_with_ghostscript E inp out q ?gs None w = (pr, w1)"
    by (cases "compress_with_ghostscript E inp out q ?gs None w")
  show ?thesis
  proof (cases "truthy ?gs")
    case False
    then show ?thesis using assms pikepdf_ok by (simp add: auto_compress_def Let_def)
  next
    case True
    show ?thesis
    proof (cases pr)
      case (Inl e)
      then show ?thesis using assms True p by (simp add: auto_compress_def Let_def)
    next
      case (Inr r1)
      show ?thesis
      proof (cases "ok r1")
        case True
        then show ?thesis
          using assms \<open>truthy ?gs\<close> p Inr ghostscript_ok [of E inp out q ?gs None w r1 w1]
          by (simp add: auto_compress_def Let_def)
      next
        case False
        then show ?thesis
          using assms \<open>truthy ?gs\<close> p Inr pikepdf_ok [of E inp out q w1 r w']
          by (simp add: auto_compress_def Let_def)
      qed
    qed
  qed
qed

subsection \<open>A successful result and the output file\<close>

text \<open>
  C3, as stated, fails: in \<open>demo_env\<close> Ghostscript exits with status 0 without writing,
  the empty temporary file is moved to the output path, and the result has
  \<open>ok = True\<close> while the output file has size 0.
\<close>

theorem ok_result_with_empty_output:
  "fst (compress_with_ghostscript demo_env ''/docs/in.pdf'' ''/docs/out.pdf'' Balanced
          (Some ''/usr/bin/gs'') None demo_world) =
     Inr (mk_result True Ghostscript ''/docs/in.pdf'' ''/docs/out.pdf'' ''Compressed with Ghostscript'') \<and>
   fs (snd (compress_with_ghostscript demo_env ''/docs/in.pdf'' ''/docs/out.pdf'' Balanced
          (Some ''/usr/bin/gs'') None demo_world)) ''/docs/out.pdf'' = Some (File 0)"
  by (simp add: backend_defs prim_defs path_defs demo_env_def demo_world_def Let_def)

text \<open>
  C3, amended: for the Ghostscript backend, the basic backend and the automatic engine,
  whenever the returned result has \<open>ok = True\<close>, its output path is the requested one
  and something exists at that path when the function returns. (That the file is
  non-empty is not checked.)
\<close>

theorem ok_result_output_exists:
  assumes "c = compress_with_ghostscript E inp out q gs t \<or>
           c = compress_with_pikepdf E inp out q \<or>
           c = auto_compress E inp out q"
    and "c w = (Inr r, w')"
    and "ok r"
  shows "output_path r = out \<and> os_path_exists w' (output_path r)"
  using assms ghostscript_ok [of E inp out q gs t w r w'] pikepdf_ok [of E inp out q w r w']
    auto_ok [of E inp out q w r w']
  by auto

theorem ok_result_output_exists_witness:
  "compress_with_pikepdf demo_env ''/docs/in.pdf'' ''/docs/out.pdf'' High demo_world =
     (Inr (mk_result True Basic ''/docs/in.pdf'' ''/docs/out.pdf'' ''Compressed with pikepdf''),
      snd (compress_with_pikepdf demo_env ''/docs/in.pdf'' ''/docs/out.pdf'' High demo_world)) \<and>
   ok (mk_result True Basic ''/docs/in.pdf'' ''/docs/out.pdf'' ''Compressed with pikepdf'') \<and>
   os_path_exists (snd (compress_with_pikepdf demo_env ''/docs/in.pdf'' ''/docs/out.pdf'' High demo_world))
     ''/docs/out.pdf''"
proof -
  let ?c = "compress_with_pikepdf demo_env ''/docs/in.pdf'' ''/docs/out.pdf'' High"
  let ?r = "mk_result True Basic ''/docs/in.pdf'' ''/docs/out.pdf'' ''Compressed with pikepdf''"
  have run: "?c demo_world = (Inr ?r, snd (?c demo_world))"
    by (simp add: backend_defs prim_defs demo_env_def demo_world_def Let_def)
  have good: "ok ?r"
    by (simp add: mk_result_def)
  show ?thesis
    using run good
      ok_result_output_exists [of ?c demo_env "''/docs/in.pdf''" "''/docs/out.pdf''" High None None
        demo_world ?r "snd (?c demo_world)", OF _ run good]
    by (simp add: mk_result_def)
qed

subsection \<open>Exceptions of the Ghostscript backend\<close>

text \<open>
  The basic backend always returns a result, and a failed result carries a message.
  The Ghostscript backend does so too unless the creation of the temporary file raises.
\<close>

lemma gs_failure_message_nonempty: "gs_failure_message rc so se \<noteq> []"
  by (simp add: gs_failure_message_def)

lemma pikepdf_never_raises:
  "\<exists>r. fst (compress_with_pikepdf E inp out q w) = Inr r \<and> (ok r \<or> message r \<noteq> [])"
proof -
  obtain res w' where c: "compress_with_pikepdf E inp out q w = (res, w')"
    by (cases "compress_with_pikepdf E inp out q w")
  then show ?thesis
    by (cases rule: pikepdf_cases) (simp_all add: c mk_result_def)
qed

lemma ghostscript_raises_only_from_mkstemp:
  assumes "compress_with_ghostscript E inp out q gs t w = (res, w')"
  shows "(\<exists>r. res = Inr r \<and> (ok r \<or> message r \<noteq> [])) \<or>
         (\<exists>e. res = Inl e \<and> fst (mkstemp E [] ''.pdf'' (log (Enter Ghostscript) w)) = Inl e)"
  using assms
proof (cases rule: ghostscript_cases)
  case not_found
  then show ?thesis by (simp add: mk_result_def)
next
  case (no_temp g e)
  then show ?thesis by simp
next
  case (ran g tmp w1 w2 r)
  from ran(5) have "ok r \<or> message r \<noteq> []"
    by (cases rule: gs_try_cases) (simp_all add: mk_result_def gs_failure_message_nonempty)
  then show ?thesis using ran(7) by simp
qed

text \<open>
  C5: the temporary file is created before the \<open>try\<close> block. In \<open>no_temp_env\<close>, where
  \<open>tempfile.mkstemp\<close> raises, the Ghostscript backend returns no result: the
  exception reaches the caller.
\<close>

theorem ghostscript_raises_without_temp_file:
  "fst (compress_with_ghostscript no_temp_env ''/docs/in.pdf'' ''/docs/out.pdf'' Balanced
          (Some ''/usr/bin/gs'') None demo_world) =
     Inl (Exception ''No usable temporary directory found'')"
  by (simp add: backend_defs prim_defs no_temp_env_def demo_env_def demo_world_def Let_def)

subsection \<open>The temporary file of the Ghostscript backend\<close>

text \<open>
  C6, as stated, fails: in \<open>locked_env\<close> Ghostscript exits with status 1 and the
  removal in the \<open>finally\<close> block raises; the exception is swallowed and the temporary
  file is still there when the function returns.
\<close>

theorem temp_file_left_behind:
  "fst (compress_with_ghostscript locked_env ''/docs/in.pdf'' ''/docs/out.pdf'' Balanced
          (Some ''/usr/bin/gs'') None demo_world) =
     Inr (mk_result False Ghostscript ''/docs/in.pdf'' ''/docs/out.pdf'' ''Error: /undefined in pdfopen'') \<and>
   fs (snd (compress_with_ghostscript locked_env ''/docs/in.pdf'' ''/docs/out.pdf'' Balanced
          (Some ''/usr/bin/gs'') None demo_world)) ''/tmp/tmp0.pdf'' = Some (File 0)"
  by (simp add: backend_defs prim_defs path_defs locked_env_def demo_env_def demo_world_def Let_def
      strip_def is_space_def)

text \<open>
  C6, amended: when the Ghostscript backend is past the tool lookup and has created its
  temporary file, that file is new, it is created before the process is started, the
  process is given the temporary file as its output file, and when the function returns
  the temporary file no longer exists unless a removal of it raised (such an exception
  is swallowed).
\<close>

theorem temp_file_cleanup:
  assumes "g \<noteq> []" and "os_path_exists w g"
    and "mkstemp E [] ''.pdf'' (log (Enter Ghostscript) w) = (Inr tmp, w1)"
    and "compress_with_ghostscript E inp out q (Some g) t w = (res, w')"
  shows "fs w tmp = None \<and>
         (\<exists>es. trace w' = trace w @ [Enter Ghostscript, MkTemp tmp, Spawn (gs_command g q tmp inp)] @ es) \<and>
         ''-sOutputFile='' @ tmp \<in> set (gs_command g q tmp inp) \<and>
         (fs w' tmp = None \<or> Remove tmp False \<in> set (trace w'))"
proof -
  obtain r w2 where tr: "gs_try E inp out q g tmp t w1 = (r, w2)"
    by (cases "gs_try E inp out q g tmp t w1")
  obtain r' w3 where fin: "gs_finally E tmp (r, w2) = (r', w3)"
    by (cases "gs_finally E tmp (r, w2)")
  have ex: "os_path_exists (log (Enter Ghostscript) w) g"
    using assms(2) by (simp add: os_path_exists_def log_def)
  have "compress_with_ghostscript E inp out q (Some g) t w = (Inr r', w3)"
    using assms(1,3) ex tr fin by (simp add: compress_with_ghostscript_def)
  then have w': "w' = w3" using assms(4) by simp
  note mk = mkstemp_created [OF assms(3)]
  obtain es where t1: "trace w2 = trace w1 @ [Spawn (gs_command g q tmp inp)] @ es"
    using gs_try_trace [OF tr] by blast
  note f = gs_finally_result [OF fin]
  obtain es' where t2: "trace w3 = trace w2 @ es'" using f(2) by blast
  have "fs w tmp = None" using mk(1) by (simp add: log_def)
  moreover have "trace w' =
      trace w @ [Enter Ghostscript, MkTemp tmp, Spawn (gs_command g q tmp inp)] @ (es @ es')"
    using t1 t2 mk(3) w' by (simp add: log_def)
  moreover have "''-sOutputFile='' @ tmp \<in> set (gs_command g q tmp inp)"
    by (simp add: gs_command_def)
  ultimately show ?thesis using f(3) w' by blast
qed

theorem temp_file_cleanup_witness:
  "''/usr/bin/gs'' \<noteq> [] \<and> os_path_exists demo_world ''/usr/bin/gs'' \<and>
   fst (mkstemp demo_env [] ''.pdf'' (log (Enter Ghostscript) demo_world)) = Inr ''/tmp/tmp0.pdf'' \<and>
   fs demo_world ''/tmp/tmp0.pdf'' = None \<and>
   fs (snd (compress_with_ghostscript demo_env ''/docs/in.pdf'' ''/docs/out.pdf'' Balanced
          (Some ''/usr/bin/gs'') None demo_world)) ''/tmp/tmp0.pdf'' = None"
proof -
  let ?w1 = "snd (mkstemp demo_env [] ''.pdf'' (log (Enter Ghostscript) demo_world))"
  let ?c = "compress_with_ghostscript demo_env ''/docs/in.pdf'' ''/docs/out.pdf'' Balanced
          (Some ''/usr/bin/gs'') None demo_world"
  have a: "''/usr/bin/gs'' \<noteq> []" by simp
  have b: "os_path_exists demo_world ''/usr/bin/gs''"
    by (simp add: os_path_exists_def demo_world_def)
  have c: "mkstemp demo_env [] ''.pdf'' (log (Enter Ghostscript) demo_world) = (Inr ''/tmp/tmp0.pdf'', ?w1)"
    by (simp add: prim_defs demo_env_def demo_world_def)
  have d: "?c = (fst ?c, snd ?c)" by simp
  have c': "fst (mkstemp demo_env [] ''.pdf'' (log (Enter Ghostscript) demo_world)) = Inr ''/tmp/tmp0.pdf''"
    by (simp add: prim_defs demo_env_def demo_world_def)
  have e: "Remove ''/tmp/tmp0.pdf'' False \<notin> set (trace (snd ?c))"
    by (simp add: backend_defs prim_defs path_defs demo_env_def demo_world_def Let_def)
  show ?thesis
    using temp_file_cleanup [OF a b c d] a b c' e by simp
qed

subsection \<open>Decimal numbers and paths\<close>

lemma digit_char_inj: "d < 10 \<Longrightarrow> e < 10 \<Longrightarrow> digit_char d = digit_char e \<Longrightarrow> d = e"
proof -
  assume a: "d < 10" "e < 10" "digit_char d = digit_char e"
  have "distinct ''0123456789''" by simp
  then show "d = e"
    using a nth_eq_iff_index_eq [of "''0123456789''" d e] by (simp add: digit_char_def)
qed

lemma digit_char_digit: "d < 10 \<Longrightarrow> digit_char d \<in> set ''0123456789''"
  unfolding digit_char_def using nth_mem [of d "''0123456789''"] by simp

lemma str_nat_nonempty: "str_nat n \<noteq> []"
  by (subst str_nat.simps) simp

lemma str_nat_digits: "set (str_nat n) \<subseteq> set ''0123456789''"
proof (induction n rule: str_nat.induct)
  case (1 n)
  show ?case
  proof (cases "n < 10")
    case True
    then show ?thesis using digit_char_digit [of n] by (subst str_nat.simps) simp
  next
    case False
    have "n mod 10 < 10" by simp
    then show ?thesis
      using False 1 digit_char_digit [of "n mod 10"] by (subst str_nat.simps) simp
  qed
qed

lemma str_nat_inj: "str_nat m = str_nat n \<Longrightarrow> m = n"
proof (induction m arbitrary: n rule: str_nat.induct)
  case (1 m)
  show ?case
  proof (cases "m < 10")
    case True
    show ?thesis
    proof (cases "n < 10")
      case True
      then show ?thesis
        using \<open>m < 10\<close> 1(2) digit_char_inj [of m n]
        by (simp add: str_nat.simps [of m] str_nat.simps [of n])
    next
      case False
      then show ?thesis
        using \<open>m < 10\<close> 1(2) str_nat_nonempty [of "n div 10"]
        by (simp add: str_nat.simps [of m] str_nat.simps [of n])
    qed
  next
    case False
    show ?thesis
    proof (cases "n < 10")
      case True
      then show ?thesis
        using False 1(2) str_nat_nonempty [of "m div 10"]
        by (simp add: str_nat.simps [of m] str_nat.simps [of n])
    next
      case n: False
      have eq: "str_nat (m div 10) = str_nat (n div 10)" "digit_char (m mod 10) = digit_char (n mod 10)"
        using False n 1(2) by (simp_all add: str_nat.simps [of m] str_nat.simps [of n])
      have "m div 10 = n div 10" using 1(1) [OF False eq(1)] .
      moreover have "m mod 10 = n mod 10" using digit_char_inj [OF _ _ eq(2)] by simp
      ultimately show ?thesis by (metis div_mult_mod_eq)
    qed
  qed
qed

text \<open>\<open>rfind\<close> and concatenation.\<close>

lemma takeWhile_shorter:
  assumes "c \<in> set p"
  shows "length (takeWhile (\<lambda>x. x \<noteq> c) (rev p)) < length p"
proof -
  let ?P = "\<lambda>x. x \<noteq> c"
  have "dropWhile ?P (rev p) \<noteq> []" using assms by simp
  moreover have "length (takeWhile ?P (rev p)) + length (dropWhile ?P (rev p)) = length (rev p)"
    by (metis length_append takeWhile_dropWhile_id)
  ultimately show ?thesis by (cases "dropWhile ?P (rev p)") auto
qed

lemma rfind_bounds: "- 1 \<le> rfind c p \<and> rfind c p < int (length p)"
proof (cases "c \<in> set p")
  case True
  then show ?thesis using takeWhile_shorter [OF True] by (simp add: rfind_def)
next
  case False
  then show ?thesis by (simp add: rfind_def)
qed

lemma rfind_nonneg: "c \<in> set p \<Longrightarrow> 0 \<le> rfind c p"
  using takeWhile_shorter [of c p] by (simp add: rfind_def)

lemma rfind_append_notin: "c \<notin> set ys \<Longrightarrow> rfind c (xs @ ys) = rfind c xs"
proof -
  assume a: "c \<notin> set ys"
  have "takeWhile (\<lambda>x. x \<noteq> c) (rev ys @ rev xs) = rev ys @ takeWhile (\<lambda>x. x \<noteq> c) (rev xs)"
    using a by (intro takeWhile_append2) auto
  then show ?thesis using a by (simp add: rfind_def)
qed

lemma rfind_append_in: "c \<in> set ys \<Longrightarrow> rfind c (xs @ ys) = int (length xs) + rfind c ys"
proof -
  assume a: "c \<in> set ys"
  then obtain x where "x \<in> set (rev ys)" "\<not> x \<noteq> c" by auto
  then have "takeWhile (\<lambda>x. x \<noteq> c) (rev ys @ rev xs) = takeWhile (\<lambda>x. x \<noteq> c) (rev ys)"
    by (rule takeWhile_append1)
  then show ?thesis using a by (simp add: rfind_def)
qed

lemma rfind_snoc: "rfind c (xs @ [c]) = int (length xs)"
  by (simp add: rfind_def)

lemma rfind_ends_with:
  assumes "pre = [] \<or> last pre = c"
  shows "rfind c pre + 1 = int (length pre)"
proof (cases "pre = []")
  case True
  then show ?thesis by (simp add: rfind_def)
next
  case False
  obtain xs where xs: "pre = xs @ [c]"
    using assms False append_butlast_last_id [of pre] by metis
  show ?thesis unfolding xs by (simp add: rfind_snoc)
qed

lemma drop_after_rfind: "rfind c p < int n \<Longrightarrow> c \<notin> set (drop n p)"
proof
  assume a: "rfind c p < int n" and b: "c \<in> set (drop n p)"
  have "rfind c (take n p @ drop n p) = int (length (take n p)) + rfind c (drop n p)"
    using b by (rule rfind_append_in)
  moreover have "n < length p" using b by (cases "n < length p") auto
  ultimately show False using a rfind_nonneg [OF b] by simp
qed

lemma basename_no_sep: "sep \<notin> set (basename p)"
  unfolding basename_def using rfind_bounds [of sep p]
  by (intro drop_after_rfind) auto

lemma splitext_append: "splitext p = (root, ext) \<Longrightarrow> p = root @ ext"
  by (auto simp: splitext_def Let_def split: if_splits)

lemma splitext_ext_no_sep:
  assumes "splitext p = (root, ext)"
  shows "sep \<notin> set ext"
proof (cases "ext = []")
  case True
  then show ?thesis by simp
next
  case False
  then have gt: "rfind sep p < rfind (CHR ''.'') p" and ext: "ext = drop (nat (rfind (CHR ''.'') p)) p"
    using assms by (auto simp: splitext_def Let_def split: if_splits)
  have "0 \<le> rfind (CHR ''.'') p" using gt rfind_bounds [of sep p] by simp
  then have "rfind sep p < int (nat (rfind (CHR ''.'') p))" using gt by simp
  then show ?thesis unfolding ext by (rule drop_after_rfind)
qed

lemma splitext_root_subset: "set (fst (splitext p)) \<subseteq> set p"
  by (auto simp: splitext_def Let_def dest: in_set_takeD)

lemma dirname_append_no_sep: "sep \<notin> set s \<Longrightarrow> dirname (r @ s) = dirname r"
proof -
  assume a: "sep \<notin> set s"
  have "nat (rfind sep r + 1) \<le> length r" using rfind_bounds [of sep r] by auto
  then show ?thesis using a by (simp add: dirname_def rfind_append_notin)
qed

text \<open>The base candidate and its extension.\<close>

lemma endswith_last:
  assumes "endswith d [c]"
  shows "d \<noteq> [] \<and> last d = c"
proof -
  have ne: "d \<noteq> []" using assms by (auto simp: endswith_def)
  then have "d = butlast d @ [last d]" by simp
  then have "drop (length d - 1) d = [last d]"
    by (metis append_eq_conv_conj length_butlast)
  then show ?thesis using assms ne by (simp add: endswith_def)
qed

lemma join_no_sep:
  assumes "sep \<notin> set b" and "b \<noteq> []"
  obtains pre where "pre = [] \<or> last pre = sep" and "\<And>c. join d (b @ c) = pre @ b @ c"
proof -
  have ns: "\<not> startswith (b @ c) [sep]" for c
    using assms by (cases b) (auto simp: startswith_def)
  show ?thesis
  proof (cases "d = [] \<or> endswith d [sep]")
    case True
    then have "d = [] \<or> last d = sep" using endswith_last by blast
    moreover have "join d (b @ c) = d @ b @ c" for c using True ns by (auto simp: join_def)
    ultimately show ?thesis using that by blast
  next
    case False
    then have "join d (b @ c) = (d @ [sep]) @ b @ c" for c using ns by (auto simp: join_def)
    then show ?thesis using that [of "d @ [sep]"] by simp
  qed
qed

lemma splitext_compressed:
  assumes "sep \<notin> set b" and "pre = [] \<or> last pre = sep"
  shows "splitext (pre @ b @ ''-compressed.pdf'') = (pre @ b @ ''-compressed'', ''.pdf'')"
proof -
  let ?p = "pre @ b @ ''-compressed.pdf''"
  have p: "?p = (pre @ b @ ''-compressed'') @ ''.pdf''" by simp
  have dot: "rfind (CHR ''.'') ?p = int (length (pre @ b @ ''-compressed''))"
    unfolding p by (subst rfind_append_in) (simp_all add: rfind_def)
  have "sep \<notin> set (b @ ''-compressed.pdf'')" using assms(1) by (simp add: sep_def)
  then have "rfind sep ?p = rfind sep pre"
    using rfind_append_notin [of sep "b @ ''-compressed.pdf''" pre] by simp
  then have sp: "rfind sep ?p + 1 = int (length pre)"
    using rfind_ends_with [OF assms(2)] by simp
  then have sp': "rfind sep ?p = int (length pre) - 1" by simp
  have c1: "rfind sep ?p < rfind (CHR ''.'') ?p" using dot sp' by simp
  have c2: "nat (rfind (CHR ''.'') ?p - (rfind sep ?p + 1)) = length b + 11"
    using dot sp by simp
  have c3: "nat (rfind sep ?p + 1) = length pre" using sp by simp
  have c4: "nat (rfind (CHR ''.'') ?p) = length pre + (length b + 11)" using dot by simp
  show ?thesis
    unfolding splitext_def Let_def c2 c3 c4
    using c1 by simp
qed

subsection \<open>The output path resolver\<close>

text \<open>The counting loop returns the first candidate that does not exist.\<close>

lemma unique_loop_first:
  assumes "i \<le> k"
    and "\<And>j. i \<le> j \<Longrightarrow> j < k \<Longrightarrow> os_path_exists w (root @ '' ('' @ str_nat j @ '')'' @ ext)"
    and "\<not> os_path_exists w (root @ '' ('' @ str_nat k @ '')'' @ ext)"
  shows "unique_loop w root ext i = Some (root @ '' ('' @ str_nat k @ '')'' @ ext)"
  using assms
proof (induction "k - i" arbitrary: i)
  case 0
  then have "i = k" by simp
  then show ?case using 0(4) by (subst unique_loop.simps) simp
next
  case (Suc n)
  then have lt: "i < k" by simp
  have ex: "os_path_exists w (root @ '' ('' @ str_nat i @ '')'' @ ext)"
    using Suc(4) [of i] lt by simp
  have "unique_loop w root ext (i + 1) = Some (root @ '' ('' @ str_nat k @ '')'' @ ext)"
    using Suc(1) [of "i + 1"] Suc(2) lt Suc(4) Suc(5) by simp
  then show ?case using ex by (subst unique_loop.simps) simp
qed

lemma stem_no_sep: "sep \<notin> set (fst (splitext (basename p)))"
  using splitext_root_subset [of "basename p"] basename_no_sep [of p] by blast

text \<open>
  C4: \<open>default_output_path_for\<close> targets the output directory when one is given and
  the source file's directory otherwise, proposes \<open><stem>-compressed.pdf\<close> there,
  returns it when nothing exists at that path, and otherwise returns the first of the
  candidates \<open><stem>-compressed (k).pdf\<close>, \<open>k = 1, 2, ...\<close>, that does not exist.
\<close>

theorem default_output_path_resolution:
  "(let stem = fst (splitext (basename src));
        target = (case output_dir of None \<Rightarrow> dirname src
                  | Some d \<Rightarrow> if d = [] then dirname src else d);
        base = join target (stem @ ''-compressed.pdf'');
        candidate = (\<lambda>k. join target (stem @ ''-compressed ('' @ str_nat k @ '').pdf''))
    in (\<not> os_path_exists w base \<longrightarrow> default_output_path_for w src output_dir = Some base) \<and>
       (os_path_exists w base \<and> 1 \<le> k \<and>
        (\<forall>j. 1 \<le> j \<and> j < k \<longrightarrow> os_path_exists w (candidate j)) \<and>
        \<not> os_path_exists w (candidate k)
        \<longrightarrow> default_output_path_for w src output_dir = Some (candidate k)))"
proof -
  define stem where "stem = fst (splitext (basename src))"
  define target where "target = (case output_dir of None \<Rightarrow> dirname src
                  | Some d \<Rightarrow> if d = [] then dirname src else d)"
  define b where "b = stem @ ''-compressed''"
  have t: "(if truthy output_dir then the output_dir else dirname src) = target"
    by (auto simp: target_def truthy_def split: option.splits)
  have "sep \<notin> set b" "b \<noteq> []"
    using stem_no_sep [of src] by (simp_all add: b_def stem_def sep_def)
  then obtain pre where pre: "pre = [] \<or> last pre = sep"
    and j: "\<And>c. join target (b @ c) = pre @ b @ c"
    using join_no_sep by blast
  have base: "join target (stem @ ''-compressed.pdf'') = pre @ stem @ ''-compressed.pdf''"
    using j [of "''.pdf''"] by (simp add: b_def)
  have cand: "join target (stem @ ''-compressed ('' @ str_nat n @ '').pdf'') =
              (pre @ stem @ ''-compressed'') @ '' ('' @ str_nat n @ '')'' @ ''.pdf''" for n
    using j [of "'' ('' @ str_nat n @ '').pdf''"] by (simp add: b_def)
  have sx: "splitext (pre @ stem @ ''-compressed.pdf'') = (pre @ stem @ ''-compressed'', ''.pdf'')"
    using splitext_compressed [OF _ pre, of stem] stem_no_sep [of src] by (simp add: stem_def)
  have d: "default_output_path_for w src output_dir =
           ensure_unique_output_path w (pre @ stem @ ''-compressed.pdf'')"
    using base by (simp add: default_output_path_for_def Let_def t stem_def [symmetric])
  have first: "\<not> os_path_exists w (pre @ stem @ ''-compressed.pdf'') \<Longrightarrow>
      default_output_path_for w src output_dir = Some (pre @ stem @ ''-compressed.pdf'')"
    by (simp add: d ensure_unique_output_path_def)
  have later: "default_output_path_for w src output_dir =
      Some ((pre @ stem @ ''-compressed'') @ '' ('' @ str_nat k @ '')'' @ ''.pdf'')"
    if "os_path_exists w (pre @ stem @ ''-compressed.pdf'')" and "1 \<le> k"
      and "\<And>j. 1 \<le> j \<Longrightarrow> j < k \<Longrightarrow>
             os_path_exists w ((pre @ stem @ ''-compressed'') @ '' ('' @ str_nat j @ '')'' @ ''.pdf'')"
      and "\<not> os_path_exists w ((pre @ stem @ ''-compressed'') @ '' ('' @ str_nat k @ '')'' @ ''.pdf'')"
    using unique_loop_first [OF that(2,3,4)] that(1)
    by (simp add: d ensure_unique_output_path_def sx)
  show ?thesis
    unfolding Let_def stem_def [symmetric] target_def [symmetric] base cand
    using first later by blast
qed

theorem default_output_path_resolution_witness:
  "os_path_exists docs_world ''/docs/a-compressed.pdf'' \<and>
   os_path_exists docs_world ''/docs/a-compressed (1).pdf'' \<and>
   \<not> os_path_exists docs_world ''/docs/a-compressed (2).pdf'' \<and>
   default_output_path_for docs_world ''/docs/a.pdf'' None = Some ''/docs/a-compressed (2).pdf''"
proof -
  have s: "fst (splitext (basename ''/docs/a.pdf'')) = ''a''" "dirname ''/docs/a.pdf'' = ''/docs''"
    by (simp_all add: splitext_def basename_def dirname_def rfind_def sep_def rstrip_sep_def)
  have n: "str_nat 1 = ''1''" "str_nat 2 = ''2''"
    by (simp_all add: str_nat.simps digit_char_def)
  have n': "str_nat (Suc 0) = ''1''"
    using n(1) by simp
  have one: "(Suc 0 \<le> j \<and> j < 2) = (j = Suc 0)" for j :: nat by auto
  have e: "os_path_exists docs_world ''/docs/a-compressed.pdf''"
    "os_path_exists docs_world ''/docs/a-compressed (1).pdf''"
    "\<not> os_path_exists docs_world ''/docs/a-compressed (2).pdf''"
    by (simp_all add: os_path_exists_def docs_world_def)
  show ?thesis
    using default_output_path_resolution [of "''/docs/a.pdf''" None docs_world 2] e
    by (simp add: s n n' one join_def startswith_def endswith_def sep_def Let_def)
qed

subsection \<open>Termination of the counting loop\<close>

lemma str_nat_no_sep: "sep \<notin> set (str_nat k)"
  using str_nat_digits [of k] by (auto simp: sep_def)

text \<open>
  C10: when only finitely many paths exist in the directory of the base path,
  \<open>ensure_unique_output_path\<close> returns: either the base path, or the candidate of
  some index \<open>k \<ge> 1\<close> that the counting loop reached; and nothing exists at the
  returned path.
\<close>

theorem ensure_unique_output_path_terminates:
  assumes "finite {p. os_path_exists w p \<and> dirname p = dirname base}"
  shows "\<exists>p. ensure_unique_output_path w base = Some p \<and> \<not> os_path_exists w p \<and>
             (p = base \<or>
              (\<exists>k. 1 \<le> k \<and> p = fst (splitext base) @ '' ('' @ str_nat k @ '')'' @ snd (splitext base)))"
proof (cases "os_path_exists w base")
  case False
  then show ?thesis by (simp add: ensure_unique_output_path_def)
next
  case True
  obtain root ext where sx: "splitext base = (root, ext)"
    by (cases "splitext base")
  define c where "c k = root @ '' ('' @ str_nat k @ '')'' @ ext" for k
  have inj: "inj c"
    by (rule injI) (auto simp: c_def dest: str_nat_inj)
  have base: "base = root @ ext" using sx by (rule splitext_append)
  have ext: "sep \<notin> set ext" using sx by (rule splitext_ext_no_sep)
  have dir: "dirname (c k) = dirname base" for k
  proof -
    have "sep \<notin> set ('' ('' @ str_nat k @ '')'' @ ext)"
      using ext str_nat_no_sep [of k] by (simp add: sep_def)
    then have "dirname (c k) = dirname root"
      unfolding c_def by (rule dirname_append_no_sep)
    moreover have "dirname base = dirname root"
      unfolding base using ext by (rule dirname_append_no_sep)
    ultimately show ?thesis by simp
  qed
  have free: "\<exists>k. 1 \<le> k \<and> \<not> os_path_exists w (c k)"
  proof (rule ccontr)
    assume "\<not> ?thesis"
    then have "c ` {1..} \<subseteq> {p. os_path_exists w p \<and> dirname p = dirname base}"
      using dir by auto
    then have "finite (c ` {1..})" using assms by (rule finite_subset)
    then have "finite {1::nat..}"
      using inj by (metis finite_imageD inj_on_subset subset_UNIV)
    then show False using infinite_Ici by blast
  qed
  define k where "k = (LEAST k. 1 \<le> k \<and> \<not> os_path_exists w (c k))"
  have k: "1 \<le> k" "\<not> os_path_exists w (c k)"
    using LeastI_ex [OF free] by (simp_all add: k_def)
  have before: "os_path_exists w (c j)" if "1 \<le> j" "j < k" for j
    using not_less_Least [of j "\<lambda>k. 1 \<le> k \<and> \<not> os_path_exists w (c k)"] that
    by (auto simp: k_def)
  have "unique_loop w root ext 1 = Some (c k)"
    using unique_loop_first [of 1 k w root ext] k before by (simp add: c_def)
  then have "ensure_unique_output_path w base = Some (c k)"
    using True by (simp add: ensure_unique_output_path_def sx)
  then show ?thesis using k sx by (auto simp: c_def)
qed

theorem ensure_unique_output_path_terminates_witness:
  "finite {p. os_path_exists docs_world p \<and> dirname p = dirname ''/docs/a-compressed.pdf''} \<and>
   (\<exists>p. ensure_unique_output_path docs_world ''/docs/a-compressed.pdf'' = Some p \<and>
        \<not> os_path_exists docs_world p)"
proof -
  have "finite (dom (fs docs_world))" by (simp add: docs_world_def)
  moreover have "{p. os_path_exists docs_world p \<and> dirname p = dirname ''/docs/a-compressed.pdf''}
      \<subseteq> dom (fs docs_world)"
    by (auto simp: os_path_exists_def)
  ultimately have fin: "finite {p. os_path_exists docs_world p \<and>
      dirname p = dirname ''/docs/a-compressed.pdf''}"
    by (rule rev_finite_subset)
  show ?thesis
    using ensure_unique_output_path_terminates [OF fin] fin by blast
qed

subsection \<open>Installing Ghostscript\<close>












subsection \<open>The command line\<close>












end
